theory Spec2Isabelle
  imports Main "HOL-Library.AList"
begin

section \<open>JSON values and JavaScript objects\<close>

text \<open>
  The diagram document is a JSON value that the service reads and writes with dynamic
  property access. Values that the source types as \<^verbatim>\<open>any\<close> are JSON values here; an
  object is the list of its own properties, read by key (no result of the service depends
  on their order), and a missing own property is \<open>None\<close>. Numbers are never computed
  with: only whether a number is zero is observed, so integers stand for them.
\<close>

datatype json =
    JNull
  | JBool bool
  | JNum int
  | JStr string
  | JArr "json list"
  | JObj "(string \<times> json) list"

type_synonym obj = "(string \<times> json) list"

text \<open>The truth value that \<^verbatim>\<open>!x\<close>, \<^verbatim>\<open>x || y\<close> and \<^verbatim>\<open>if (x)\<close> take of a value.\<close>

fun truthy :: "json \<Rightarrow> bool" where
  "truthy JNull = False"
| "truthy (JBool b) = b"
| "truthy (JNum n) = (n \<noteq> 0)"
| "truthy (JStr s) = (s \<noteq> [])"
| "truthy (JArr xs) = True"
| "truthy (JObj kvs) = True"

text \<open>The truth value of a property read, \<^verbatim>\<open>undefined\<close> being falsy.\<close>

fun truthy_opt :: "json option \<Rightarrow> bool" where
  "truthy_opt None = False"
| "truthy_opt (Some v) = truthy v"

text \<open>\<^verbatim>\<open>String(i)\<close> for an integer: the property name an index turns into.\<close>

definition digit_char :: "nat \<Rightarrow> char" where
  "digit_char d = ''0123456789'' ! d"

function string_of_nat :: "nat \<Rightarrow> string" where
  "string_of_nat n =
     (if n < 10 then [digit_char n]
      else string_of_nat (n div 10) @ [digit_char (n mod 10)])"
  by pat_completeness auto
termination
  by (relation "measure (\<lambda>n. n)") auto

declare string_of_nat.simps [simp del]

definition string_of_index :: "int \<Rightarrow> string" where
  "string_of_index i =
     (if i < 0 then CHR ''-'' # string_of_nat (nat (- i)) else string_of_nat (nat i))"

text \<open>
  The own enumerable properties that an object spread \<^verbatim>\<open>{...v}\<close> copies: those of an
  object, the indexed entries of an array or of a string, and none for any other value.
\<close>

fun own_props :: "json \<Rightarrow> obj" where
  "own_props (JObj kvs) = kvs"
| "own_props (JArr xs) = zip (map string_of_nat [0..<length xs]) xs"
| "own_props (JStr s) = zip (map string_of_nat [0..<length s]) (map (\<lambda>c. JStr [c]) s)"
| "own_props v = []"

text \<open>
  The object literal \<^verbatim>\<open>{...a, ...b}\<close>: a copy of \<open>a\<close> to which every property of
  \<open>b\<close> is written in order; a key already there keeps its place, a new key goes to the
  end. An explicit property after a spread, as in \<^verbatim>\<open>{...a, k: v}\<close>, is the one-property
  case \<open>spread a [(k, v)]\<close>.
\<close>

definition spread :: "obj \<Rightarrow> obj \<Rightarrow> obj" where
  "spread a b = fold (\<lambda>(k, v) acc. AList.update k v acc) b a"

text \<open>
  \<^verbatim>\<open>Object.keys(o)\<close>: each own key once.
\<close>

definition object_keys :: "(string \<times> 'v) list \<Rightarrow> string list" where
  "object_keys kvs = remdups (map fst kvs)"

text \<open>
  The elements and the relations of a diagram are plain objects used as maps from ids to
  objects. A read \<^verbatim>\<open>m[k]\<close> of such a map finds the own property \<open>k\<close> or else the
  member of that name that every object inherits from \<^verbatim>\<open>Object.prototype\<close>. The
  inherited members are functions, and \<^verbatim>\<open>__proto__\<close> reads as the prototype itself: all
  are truthy, none has an enumerable property of its own, and none has a property named
  \<^verbatim>\<open>attributes\<close>, \<^verbatim>\<open>from\<close> or \<^verbatim>\<open>to\<close>. The records inside the maps are read
  only at names that no object inherits.
\<close>

definition inherited_names :: "string list" where
  "inherited_names =
     [''constructor'', ''__defineGetter__'', ''__defineSetter__'', ''hasOwnProperty'',
      ''__lookupGetter__'', ''__lookupSetter__'', ''isPrototypeOf'', ''propertyIsEnumerable'',
      ''toString'', ''valueOf'', ''__proto__'', ''toLocaleString'']"

datatype 'v lookup = Own 'v | Inherited | Undefined

definition get_prop :: "(string \<times> 'v) list \<Rightarrow> string \<Rightarrow> 'v lookup" where
  "get_prop kvs k =
     (case map_of kvs k of
        Some v \<Rightarrow> Own v
      | None \<Rightarrow> if k \<in> set inherited_names then Inherited else Undefined)"

text \<open>
  The truth value of such a read (its own values are objects), and the properties that a
  spread \<^verbatim>\<open>{...m[k]}\<close> copies from it.
\<close>

fun truthy_prop :: "'v lookup \<Rightarrow> bool" where
  "truthy_prop (Own v) = True"
| "truthy_prop Inherited = True"
| "truthy_prop Undefined = False"

fun props_of :: "obj lookup \<Rightarrow> obj" where
  "props_of (Own kvs) = kvs"
| "props_of Inherited = []"
| "props_of Undefined = []"

text \<open>
  The assignment \<^verbatim>\<open>m[k] = v\<close> of an object \<open>v\<close>. It writes the own property \<open>k\<close>,
  except at \<^verbatim>\<open>__proto__\<close> when the map has no own property of that name: there the
  inherited setter makes \<open>v\<close> the prototype of the map and no property is created, so the
  map, as it is stored, stays as it is.
\<close>

definition set_prop :: "string \<Rightarrow> 'v \<Rightarrow> (string \<times> 'v) list \<Rightarrow> (string \<times> 'v) list" where
  "set_prop k v kvs =
     (if k = ''__proto__'' \<and> map_of kvs k = None then kvs else AList.update k v kvs)"

text \<open>
  \<^verbatim>\<open>v[i]\<close> for a numeric index on a value that is neither \<^verbatim>\<open>null\<close> nor
  \<^verbatim>\<open>undefined\<close>: the entry of an array, the one-character string of a string, the
  property named \<^verbatim>\<open>String(i)\<close> of an object, and \<^verbatim>\<open>undefined\<close> on a number or a
  boolean. \<open>opt_index\<close> is the optional chain \<^verbatim>\<open>v?.[i]\<close>.
\<close>

fun js_index :: "json \<Rightarrow> int \<Rightarrow> json option" where
  "js_index (JArr xs) i = (if 0 \<le> i \<and> nat i < length xs then Some (xs ! nat i) else None)"
| "js_index (JStr s) i = (if 0 \<le> i \<and> nat i < length s then Some (JStr [s ! nat i]) else None)"
| "js_index (JObj kvs) i = map_of kvs (string_of_index i)"
| "js_index v i = None"

fun opt_index :: "json option \<Rightarrow> int \<Rightarrow> json option" where
  "opt_index None i = None"
| "opt_index (Some JNull) i = None"
| "opt_index (Some v) i = js_index v i"

text \<open>\<^verbatim>\<open>xs.splice(i, 1)\<close> at an index inside the array.\<close>

definition splice1 :: "nat \<Rightarrow> 'a list \<Rightarrow> 'a list" where
  "splice1 i xs = take i xs @ drop (Suc i) xs"

section \<open>Entities and repositories\<close>

record user =
  user_id :: int
  name :: string
  email :: string

text \<open>
  Modelled from the spec: the \<^verbatim>\<open>Diagram\<close> entity and the two DTO classes are not part of
  the sources at hand. A diagram has an id, one owner, the users it is shared with, a
  content document with the two lazily initialised maps \<^verbatim>\<open>elements\<close> and
  \<^verbatim>\<open>relations\<close> (from ids to objects), and a soft-deletion mark; \<open>meta\<close> stands for
  the remaining columns. The creation DTO carries metadata and content. An update patch is
  whatever object the caller sends: \<^verbatim>\<open>Object.assign\<close> copies each of its fields onto the
  loaded diagram, so it may name any column. A field that the patch lacks is \<open>None\<close>;
  \<open>upd_meta\<close> is what its metadata fields do to the metadata columns (the identity when
  it has none).
\<close>

record diagram_content =
  elements :: "(string \<times> obj) list option"
  relations :: "(string \<times> obj) list option"

record 'm diagram =
  diagram_id :: int
  owner :: user
  sharedWith :: "user list"
  meta :: 'm
  content :: diagram_content
  deleted :: bool

record 'm createDiagramDto =
  dto_meta :: 'm
  dto_content :: diagram_content

record 'm updateDiagramDto =
  upd_id :: "int option"
  upd_owner :: "user option"
  upd_sharedWith :: "user list option"
  upd_meta :: "'m \<Rightarrow> 'm"
  upd_content :: "diagram_content option"
  upd_deleted :: "bool option"

record 'm diagramsService =
  diagramsRepository :: "'m diagram list"
  usersRepository :: "user list"

datatype error =
    NotFoundException string
  | ForbiddenException string
  | Error string
  | TypeError

type_synonym 'm result = "(error + 'm diagram) \<times> 'm diagramsService"

text \<open>
  The repository calls. A read by id sees the row with that id that is not soft-deleted;
  \<^verbatim>\<open>save\<close> overwrites the row with the entity's id, or inserts it.
\<close>

definition repo_findOne :: "'m diagram list \<Rightarrow> int \<Rightarrow> 'm diagram option" where
  "repo_findOne rows i = find (\<lambda>d. diagram_id d = i \<and> \<not> deleted d) rows"

definition repo_findOneBy :: "user list \<Rightarrow> int \<Rightarrow> user option" where
  "repo_findOneBy rows i = find (\<lambda>u. user_id u = i) rows"

definition repo_save :: "'m diagram list \<Rightarrow> 'm diagram \<Rightarrow> 'm diagram list" where
  "repo_save rows d =
     (if list_ex (\<lambda>r. diagram_id r = diagram_id d) rows
      then map (\<lambda>r. if diagram_id r = diagram_id d then d else r) rows
      else rows @ [d])"

definition save :: "'m diagramsService \<Rightarrow> 'm diagram \<Rightarrow> 'm result" where
  "save s d = (Inr d, s\<lparr>diagramsRepository := repo_save (diagramsRepository s) d\<rparr>)"

definition throw :: "'m diagramsService \<Rightarrow> error \<Rightarrow> 'm result" where
  "throw s e = (Inl e, s)"

section \<open>DiagramsService\<close>

text \<open>
  \<open>create\<close>: the id that storage gives the new row is the parameter \<open>new_id\<close>.
\<close>

definition create :: "'m diagramsService \<Rightarrow> int \<Rightarrow> 'm createDiagramDto \<Rightarrow> user \<Rightarrow> 'm result" where
  "create s new_id createDto usr =
     save s \<lparr>diagram_id = new_id, owner = usr, sharedWith = [],
             meta = dto_meta createDto, content = dto_content createDto, deleted = False\<rparr>"

definition hasAccess :: "'m diagram \<Rightarrow> user \<Rightarrow> bool" where
  "hasAccess diagram usr =
     (user_id (owner diagram) = user_id usr
      \<or> list_ex (\<lambda>u. user_id u = user_id usr) (sharedWith diagram))"

definition findOne :: "'m diagramsService \<Rightarrow> int \<Rightarrow> user \<Rightarrow> error + 'm diagram" where
  "findOne s i usr =
     (case repo_findOne (diagramsRepository s) i of
        None \<Rightarrow> Inl (NotFoundException ''Diagram not found'')
      | Some diagram \<Rightarrow>
          if \<not> hasAccess diagram usr then Inl (ForbiddenException ''Access denied'')
          else Inr diagram)"

text \<open>\<^verbatim>\<open>Object.assign(diagram, updateDiagramDto)\<close>: every field of the patch is copied.\<close>

definition assign_patch :: "'m diagram \<Rightarrow> 'm updateDiagramDto \<Rightarrow> 'm diagram" where
  "assign_patch diagram updateDto =
     \<lparr>diagram_id = (case upd_id updateDto of None \<Rightarrow> diagram_id diagram | Some v \<Rightarrow> v),
      owner = (case upd_owner updateDto of None \<Rightarrow> owner diagram | Some v \<Rightarrow> v),
      sharedWith = (case upd_sharedWith updateDto of None \<Rightarrow> sharedWith diagram | Some v \<Rightarrow> v),
      meta = upd_meta updateDto (meta diagram),
      content = (case upd_content updateDto of None \<Rightarrow> content diagram | Some v \<Rightarrow> v),
      deleted = (case upd_deleted updateDto of None \<Rightarrow> deleted diagram | Some v \<Rightarrow> v)\<rparr>"

definition update :: "'m diagramsService \<Rightarrow> int \<Rightarrow> 'm updateDiagramDto \<Rightarrow> user \<Rightarrow> 'm result" where
  "update s i updateDto usr =
     (case findOne s i usr of
        Inl e \<Rightarrow> throw s e
      | Inr diagram \<Rightarrow> save s (assign_patch diagram updateDto))"

definition remove :: "'m diagramsService \<Rightarrow> int \<Rightarrow> user \<Rightarrow> 'm result" where
  "remove s i usr =
     (case findOne s i usr of
        Inl e \<Rightarrow> throw s e
      | Inr diagram \<Rightarrow> save s (diagram\<lparr>deleted := True\<rparr>))"

definition shareDiagram :: "'m diagramsService \<Rightarrow> int \<Rightarrow> int \<Rightarrow> user \<Rightarrow> 'm result" where
  "shareDiagram s diagramId userId ownr =
     (case findOne s diagramId ownr of
        Inl e \<Rightarrow> throw s e
      | Inr diagram \<Rightarrow>
          if user_id (owner diagram) \<noteq> user_id ownr
          then throw s (ForbiddenException ''Only the owner can share the diagram'')
          else (case repo_findOneBy (usersRepository s) userId of
                  None \<Rightarrow> throw s (NotFoundException ''User to share not found'')
                | Some userToShare \<Rightarrow>
                    save s (diagram\<lparr>sharedWith := sharedWith diagram @ [userToShare]\<rparr>)))"

text \<open>Writing the \<^verbatim>\<open>elements\<close> or the \<^verbatim>\<open>relations\<close> map of a loaded diagram.\<close>

definition set_elements :: "'m diagram \<Rightarrow> (string \<times> obj) list \<Rightarrow> 'm diagram" where
  "set_elements diagram els = diagram\<lparr>content := (content diagram)\<lparr>elements := Some els\<rparr>\<rparr>"

definition set_relations :: "'m diagram \<Rightarrow> (string \<times> obj) list \<Rightarrow> 'm diagram" where
  "set_relations diagram rels = diagram\<lparr>content := (content diagram)\<lparr>relations := Some rels\<rparr>\<rparr>"

text \<open>\<^verbatim>\<open>if (!m) m = {}\<close> on a lazily initialised map.\<close>

definition or_empty :: "(string \<times> obj) list option \<Rightarrow> (string \<times> obj) list" where
  "or_empty m = (case m of None \<Rightarrow> [] | Some kvs \<Rightarrow> kvs)"

text \<open>
  The read \<^verbatim>\<open>m?.[k]\<close> on a lazily initialised map: \<^verbatim>\<open>undefined\<close> when the map is
  not there, the property read of the map otherwise.
\<close>

definition opt_get :: "(string \<times> obj) list option \<Rightarrow> string \<Rightarrow> obj lookup" where
  "opt_get m k = (case m of None \<Rightarrow> Undefined | Some kvs \<Rightarrow> get_prop kvs k)"

text \<open>
  The record that the document of a diagram holds for an element id or a relation id: the
  own property of the map, which is what is stored and what a reader of the diagram gets.
\<close>

definition element_at :: "'m diagram \<Rightarrow> string \<Rightarrow> obj option" where
  "element_at diagram k =
     (case elements (content diagram) of None \<Rightarrow> None | Some kvs \<Rightarrow> map_of kvs k)"

definition relation_at :: "'m diagram \<Rightarrow> string \<Rightarrow> obj option" where
  "relation_at diagram k =
     (case relations (content diagram) of None \<Rightarrow> None | Some kvs \<Rightarrow> map_of kvs k)"

text \<open>
  The partial mutations of the document. Each loads the diagram through \<open>findOne\<close>,
  changes the loaded copy and saves it as its last step; the diagram it returns is the
  document as saved. An argument that the source types \<^verbatim>\<open>any\<close> is a JSON value; the
  class data, attribute, attribute patch and relation arguments are objects. Where the
  source calls \<^verbatim>\<open>push\<close> or \<^verbatim>\<open>splice\<close> on a value that is not an array, or assigns to
  an index of a string, JavaScript throws a \<^verbatim>\<open>TypeError\<close>.
\<close>

definition updateElement ::
  "'m diagramsService \<Rightarrow> int \<Rightarrow> string \<Rightarrow> json \<Rightarrow> user \<Rightarrow> 'm result" where
  "updateElement s diagramId elementId elementData usr =
     (case findOne s diagramId usr of
        Inl e \<Rightarrow> throw s e
      | Inr diagram \<Rightarrow>
          let els = or_empty (elements (content diagram))
          in save s (set_elements diagram
                       (set_prop elementId
                          (spread (props_of (get_prop els elementId)) (own_props elementData))
                          els)))"

definition position_json :: "int \<times> int \<Rightarrow> json" where
  "position_json p = JObj [(''x'', JNum (fst p)), (''y'', JNum (snd p))]"

definition moveElement ::
  "'m diagramsService \<Rightarrow> int \<Rightarrow> string \<Rightarrow> int \<times> int \<Rightarrow> user \<Rightarrow> 'm result" where
  "moveElement s diagramId elementId position usr =
     updateElement s diagramId elementId (JObj [(''position'', position_json position)]) usr"

text \<open>
  \<open>addAttribute\<close> at an id that the map only inherits puts the attribute list on the
  built-in object that the name denotes, not in the document: the diagram is saved as it
  was loaded. What such a call leaves on the built-in object stays in the running process
  and is no part of the service state here.
\<close>

definition addAttribute ::
  "'m diagramsService \<Rightarrow> int \<Rightarrow> string \<Rightarrow> obj \<Rightarrow> user \<Rightarrow> 'm result" where
  "addAttribute s diagramId classId attribute usr =
     (case findOne s diagramId usr of
        Inl e \<Rightarrow> throw s e
      | Inr diagram \<Rightarrow>
          (case opt_get (elements (content diagram)) classId of
             Undefined \<Rightarrow> throw s (NotFoundException ''Class not found in diagram'')
           | Inherited \<Rightarrow> save s diagram
           | Own classElem \<Rightarrow>
               let els = or_empty (elements (content diagram));
                   classElem1 =
                     (if \<not> truthy_opt (map_of classElem ''attributes'')
                      then AList.update ''attributes'' (JArr []) classElem
                      else classElem)
               in (case map_of classElem1 ''attributes'' of
                     Some (JArr attrs) \<Rightarrow>
                       save s (set_elements diagram
                                 (AList.update classId
                                    (AList.update ''attributes'' (JArr (attrs @ [JObj attribute]))
                                       classElem1) els))
                   | _ \<Rightarrow> throw s TypeError)))"

definition updateAttribute ::
  "'m diagramsService \<Rightarrow> int \<Rightarrow> string \<Rightarrow> int \<Rightarrow> obj \<Rightarrow> user \<Rightarrow> 'm result" where
  "updateAttribute s diagramId classId attrIndex newData usr =
     (case findOne s diagramId usr of
        Inl e \<Rightarrow> throw s e
      | Inr diagram \<Rightarrow>
          (case opt_get (elements (content diagram)) classId of
             Undefined \<Rightarrow> throw s (NotFoundException ''Attribute not found'')
           | Inherited \<Rightarrow> throw s (NotFoundException ''Attribute not found'')
           | Own classElem \<Rightarrow>
               (case opt_index (map_of classElem ''attributes'') attrIndex of
                  None \<Rightarrow> throw s (NotFoundException ''Attribute not found'')
                | Some attr \<Rightarrow>
                    if \<not> truthy attr then throw s (NotFoundException ''Attribute not found'')
                    else
                      let els = or_empty (elements (content diagram));
                          merged = JObj (spread (own_props attr) newData)
                      in (case map_of classElem ''attributes'' of
                            Some (JArr attrs) \<Rightarrow>
                              save s (set_elements diagram
                                        (AList.update classId
                                           (AList.update ''attributes''
                                              (JArr (attrs[nat attrIndex := merged])) classElem)
                                           els))
                          | Some (JObj kvs) \<Rightarrow>
                              save s (set_elements diagram
                                        (AList.update classId
                                           (AList.update ''attributes''
                                              (JObj (AList.update (string_of_index attrIndex)
                                                       merged kvs)) classElem)
                                           els))
                          | _ \<Rightarrow> throw s TypeError))))"

definition removeAttribute ::
  "'m diagramsService \<Rightarrow> int \<Rightarrow> string \<Rightarrow> int \<Rightarrow> user \<Rightarrow> 'm result" where
  "removeAttribute s diagramId classId attrIndex usr =
     (case findOne s diagramId usr of
        Inl e \<Rightarrow> throw s e
      | Inr diagram \<Rightarrow>
          (case opt_get (elements (content diagram)) classId of
             Undefined \<Rightarrow> throw s (NotFoundException ''Attribute not found'')
           | Inherited \<Rightarrow> throw s (NotFoundException ''Attribute not found'')
           | Own classElem \<Rightarrow>
               if \<not> truthy_opt (opt_index (map_of classElem ''attributes'') attrIndex)
               then throw s (NotFoundException ''Attribute not found'')
               else
                 let els = or_empty (elements (content diagram))
                 in (case map_of classElem ''attributes'' of
                       Some (JArr attrs) \<Rightarrow>
                         save s (set_elements diagram
                                   (AList.update classId
                                      (AList.update ''attributes''
                                         (JArr (splice1 (nat attrIndex) attrs)) classElem)
                                      els))
                     | _ \<Rightarrow> throw s TypeError)))"

definition addClass ::
  "'m diagramsService \<Rightarrow> int \<Rightarrow> string \<Rightarrow> obj \<Rightarrow> user \<Rightarrow> 'm result" where
  "addClass s diagramId classId classData usr =
     (case findOne s diagramId usr of
        Inl e \<Rightarrow> throw s e
      | Inr diagram \<Rightarrow>
          let els = or_empty (elements (content diagram))
          in if truthy_prop (get_prop els classId)
             then throw s (Error ''Class already exists'')
             else
               let attrs = (case map_of classData ''attributes'' of
                              None \<Rightarrow> JArr []
                            | Some a \<Rightarrow> if truthy a then a else JArr [])
               in save s (set_elements diagram
                            (set_prop classId (spread classData [(''attributes'', attrs)]) els)))"

text \<open>
  The loop of \<open>removeClass\<close> over the keys of the relations map. On a relation that is
  only inherited \<^verbatim>\<open>rel.from\<close> and \<^verbatim>\<open>rel.to\<close> are \<^verbatim>\<open>undefined\<close>; reading them of a
  relation that is not there at all is a type error.
\<close>

definition references :: "string \<Rightarrow> obj \<Rightarrow> bool" where
  "references classId rel =
     (map_of rel ''from'' = Some (JStr classId) \<or> map_of rel ''to'' = Some (JStr classId))"

fun removeClass_loop ::
  "string \<Rightarrow> string list \<Rightarrow> (string \<times> obj) list \<Rightarrow> error + (string \<times> obj) list" where
  "removeClass_loop classId [] rels = Inr rels"
| "removeClass_loop classId (relId # relIds) rels =
     (case get_prop rels relId of
        Undefined \<Rightarrow> Inl TypeError
      | Inherited \<Rightarrow> removeClass_loop classId relIds rels
      | Own rel \<Rightarrow>
          removeClass_loop classId relIds
            (if references classId rel then AList.delete relId rels else rels))"

definition removeClass ::
  "'m diagramsService \<Rightarrow> int \<Rightarrow> string \<Rightarrow> user \<Rightarrow> 'm result" where
  "removeClass s diagramId classId usr =
     (case findOne s diagramId usr of
        Inl e \<Rightarrow> throw s e
      | Inr diagram \<Rightarrow>
          if \<not> truthy_prop (opt_get (elements (content diagram)) classId)
          then throw s (Error ''Class not found'')
          else
            (case (case relations (content diagram) of
                     None \<Rightarrow> Inr diagram
                   | Some rels \<Rightarrow>
                       (case removeClass_loop classId (object_keys rels) rels of
                          Inl e \<Rightarrow> Inl e
                        | Inr rels' \<Rightarrow> Inr (set_relations diagram rels'))) of
               Inl e \<Rightarrow> throw s e
             | Inr diagram1 \<Rightarrow>
                 save s (set_elements diagram1
                           (AList.delete classId (or_empty (elements (content diagram1)))))))"

definition addRelation ::
  "'m diagramsService \<Rightarrow> int \<Rightarrow> string \<Rightarrow> obj \<Rightarrow> user \<Rightarrow> 'm result" where
  "addRelation s diagramId relationId relationData usr =
     (case findOne s diagramId usr of
        Inl e \<Rightarrow> throw s e
      | Inr diagram \<Rightarrow>
          let rels = or_empty (relations (content diagram))
          in if truthy_prop (get_prop rels relationId)
             then throw s (Error ''Relation already exists'')
             else save s (set_relations diagram (set_prop relationId relationData rels)))"

definition updateRelation ::
  "'m diagramsService \<Rightarrow> int \<Rightarrow> string \<Rightarrow> obj \<Rightarrow> user \<Rightarrow> 'm result" where
  "updateRelation s diagramId relationId relationData usr =
     (case findOne s diagramId usr of
        Inl e \<Rightarrow> throw s e
      | Inr diagram \<Rightarrow>
          if \<not> truthy_prop (opt_get (relations (content diagram)) relationId)
          then throw s (Error ''Relation not found'')
          else
            let rels = or_empty (relations (content diagram))
            in save s (set_relations diagram
                         (set_prop relationId
                            (spread (props_of (get_prop rels relationId)) relationData)
                            rels)))"

definition removeRelation ::
  "'m diagramsService \<Rightarrow> int \<Rightarrow> string \<Rightarrow> user \<Rightarrow> 'm result" where
  "removeRelation s diagramId relationId usr =
     (case findOne s diagramId usr of
        Inl e \<Rightarrow> throw s e
      | Inr diagram \<Rightarrow>
          if \<not> truthy_prop (opt_get (relations (content diagram)) relationId)
          then throw s (Error ''Relation not found'')
          else save s (set_relations diagram
                         (AList.delete relationId (or_empty (relations (content diagram))))))"

section \<open>The mutations as one family\<close>

text \<open>
  Every operation of the service that writes a stored diagram, with its arguments, so
  that a property can be stated once for all of them; \<open>target\<close> is the id of the diagram
  the operation is called on.
\<close>

datatype 'm mutation =
    Update int "'m updateDiagramDto"
  | Remove int
  | ShareDiagram int int
  | UpdateElement int string json
  | MoveElement int string "int \<times> int"
  | AddAttribute int string obj
  | UpdateAttribute int string int obj
  | RemoveAttribute int string int
  | AddClass int string obj
  | RemoveClass int string
  | AddRelation int string obj
  | UpdateRelation int string obj
  | RemoveRelation int string

fun target :: "'m mutation \<Rightarrow> int" where
  "target (Update i updateDto) = i"
| "target (Remove i) = i"
| "target (ShareDiagram i userId) = i"
| "target (UpdateElement i elementId elementData) = i"
| "target (MoveElement i elementId position) = i"
| "target (AddAttribute i classId attribute) = i"
| "target (UpdateAttribute i classId attrIndex newData) = i"
| "target (RemoveAttribute i classId attrIndex) = i"
| "target (AddClass i classId classData) = i"
| "target (RemoveClass i classId) = i"
| "target (AddRelation i relationId relationData) = i"
| "target (UpdateRelation i relationId relationData) = i"
| "target (RemoveRelation i relationId) = i"

fun perform :: "'m diagramsService \<Rightarrow> 'm mutation \<Rightarrow> user \<Rightarrow> 'm result" where
  "perform s (Update i updateDto) usr = update s i updateDto usr"
| "perform s (Remove i) usr = remove s i usr"
| "perform s (ShareDiagram i userId) usr = shareDiagram s i userId usr"
| "perform s (UpdateElement i elementId elementData) usr = updateElement s i elementId elementData usr"
| "perform s (MoveElement i elementId position) usr = moveElement s i elementId position usr"
| "perform s (AddAttribute i classId attribute) usr = addAttribute s i classId attribute usr"
| "perform s (UpdateAttribute i classId attrIndex newData) usr =
     updateAttribute s i classId attrIndex newData usr"
| "perform s (RemoveAttribute i classId attrIndex) usr = removeAttribute s i classId attrIndex usr"
| "perform s (AddClass i classId classData) usr = addClass s i classId classData usr"
| "perform s (RemoveClass i classId) usr = removeClass s i classId usr"
| "perform s (AddRelation i relationId relationData) usr = addRelation s i relationId relationData usr"
| "perform s (UpdateRelation i relationId relationData) usr =
     updateRelation s i relationId relationData usr"
| "perform s (RemoveRelation i relationId) usr = removeRelation s i relationId usr"

section \<open>A sample service\<close>

text \<open>
  A small state on which the theorems below are instantiated: Ana owns diagram 1 and has
  shared it with Ben; Cleo is a user without access. The diagram holds the classes
  \<open>A\<close>, \<open>B\<close> and \<open>C\<close> and the relations \<open>R1\<close> (from A to B), \<open>R2\<close> (from C to A)
  and \<open>R3\<close> (from B to C).
\<close>

definition ana :: user where
  "ana = \<lparr>user_id = 1, name = ''Ana'', email = ''ana@example.org''\<rparr>"

definition ben :: user where
  "ben = \<lparr>user_id = 2, name = ''Ben'', email = ''ben@example.org''\<rparr>"

definition cleo :: user where
  "cleo = \<lparr>user_id = 3, name = ''Cleo'', email = ''cleo@example.org''\<rparr>"

definition sample_attr :: "string \<Rightarrow> string \<Rightarrow> json" where
  "sample_attr n t = JObj [(''name'', JStr n), (''type'', JStr t)]"

definition class_A :: obj where
  "class_A = [(''name'', JStr ''Car''), (''position'', position_json (0, 0)),
              (''attributes'', JArr [sample_attr ''a0'' ''number'', sample_attr ''a1'' ''string'',
                                     sample_attr ''a2'' ''boolean''])]"

definition class_B :: obj where
  "class_B = [(''name'', JStr ''Wheel''), (''position'', position_json (4, 2)),
              (''attributes'', JArr [])]"

definition class_C :: obj where
  "class_C = [(''name'', JStr ''Garage''), (''position'', position_json (9, 9)),
              (''attributes'', JArr [sample_attr ''slots'' ''number''])]"

definition sample_rel :: "string \<Rightarrow> string \<Rightarrow> string \<Rightarrow> obj" where
  "sample_rel f t ty = [(''from'', JStr f), (''to'', JStr t), (''type'', JStr ty)]"

definition sample_diagram :: "string diagram" where
  "sample_diagram =
     \<lparr>diagram_id = 1, owner = ana, sharedWith = [ben], meta = ''Vehicles'',
      content = \<lparr>elements = Some [(''A'', class_A), (''B'', class_B), (''C'', class_C)],
                 relations = Some [(''R1'', sample_rel ''A'' ''B'' ''association''),
                                   (''R2'', sample_rel ''C'' ''A'' ''aggregation''),
                                   (''R3'', sample_rel ''B'' ''C'' ''association'')]\<rparr>,
      deleted = False\<rparr>"

definition sample_service :: "string diagramsService" where
  "sample_service =
     \<lparr>diagramsRepository = [sample_diagram], usersRepository = [ana, ben, cleo]\<rparr>"




text \<open>An update patch that carries nothing but an owner: Ben.\<close>

definition owner_patch :: "string updateDiagramDto" where
  "owner_patch =
     \<lparr>upd_id = None, upd_owner = Some ben, upd_sharedWith = None, upd_meta = (\<lambda>m. m),
      upd_content = None, upd_deleted = None\<rparr>"

section \<open>Auxiliary facts\<close>

lemma map_of_rev_distinct: "distinct (map fst kvs) \<Longrightarrow> map_of (rev kvs) = map_of kvs"
  by (rule map_of_inject_set[THEN iffD2]) (simp_all add: rev_map[symmetric])

lemma map_of_spread_rev: "map_of (spread a b) = map_of a ++ map_of (rev b)"
  unfolding spread_def
  by (induction b arbitrary: a)
     (auto simp: update_conv' map_add_def fun_eq_iff split: option.splits)

lemma map_of_spread: "distinct (map fst b) \<Longrightarrow> map_of (spread a b) = map_of a ++ map_of b"
  by (simp add: map_of_spread_rev map_of_rev_distinct)

lemma element_at_or_empty: "map_of (or_empty (elements (content D))) k = element_at D k"
  by (simp add: or_empty_def element_at_def split: option.splits)

lemma relation_at_or_empty: "map_of (or_empty (relations (content D))) k = relation_at D k"
  by (simp add: or_empty_def relation_at_def split: option.splits)


lemma get_prop_None:
  "map_of kvs k = None \<Longrightarrow>
     get_prop kvs k = (if k \<in> set inherited_names then Inherited else Undefined)"
  by (simp add: get_prop_def)

lemma truthy_get_prop:
  "truthy_prop (get_prop kvs k) = (map_of kvs k \<noteq> None \<or> k \<in> set inherited_names)"
  by (auto simp: get_prop_def split: option.splits)

lemma props_of_get_prop:
  "props_of (get_prop kvs k) = (case map_of kvs k of None \<Rightarrow> [] | Some el \<Rightarrow> el)"
  by (simp add: get_prop_def split: option.splits)




lemma map_of_set_prop:
  "map_of (set_prop k v kvs) =
     (if k = ''__proto__'' \<and> map_of kvs k = None then map_of kvs else (map_of kvs)(k \<mapsto> v))"
  by (auto simp: set_prop_def update_conv')

lemma repo_findOne_SomeD:
  "repo_findOne rows i = Some d \<Longrightarrow> diagram_id d = i \<and> \<not> deleted d \<and> d \<in> set rows"
  unfolding repo_findOne_def by (auto simp: find_Some_iff)

lemma find_replaced:
  "\<not> deleted d \<Longrightarrow> \<exists>r\<in>set rows. diagram_id r = diagram_id d \<Longrightarrow>
   find (\<lambda>x. diagram_id x = diagram_id d \<and> \<not> deleted x)
     (map (\<lambda>r. if diagram_id r = diagram_id d then d else r) rows) = Some d"
  by (induction rows) auto

lemma find_appended:
  "\<not> deleted d \<Longrightarrow> \<forall>r\<in>set rows. diagram_id r \<noteq> diagram_id d \<Longrightarrow>
   find (\<lambda>x. diagram_id x = diagram_id d \<and> \<not> deleted x) (rows @ [d]) = Some d"
  by (induction rows) auto

lemma repo_findOne_save:
  "\<not> deleted d \<Longrightarrow> repo_findOne (repo_save rows d) (diagram_id d) = Some d"
  unfolding repo_findOne_def repo_save_def
  by (simp add: list_ex_iff find_replaced find_appended)

lemma repo_save_rows: "r' \<in> set (repo_save rows d) \<Longrightarrow> r' = d \<or> r' \<in> set rows"
  unfolding repo_save_def by (auto split: if_splits)

lemma findOne_InrD:
  "findOne s i usr = Inr d \<Longrightarrow>
     repo_findOne (diagramsRepository s) i = Some d \<and> hasAccess d usr"
  unfolding findOne_def by (auto split: option.splits if_splits)

lemma findOne_visible:
  "repo_findOne (diagramsRepository s) i = Some d \<Longrightarrow>
     findOne s i usr =
       (if hasAccess d usr then Inr d else Inl (ForbiddenException ''Access denied''))"
  unfolding findOne_def by simp

lemma sample_visible:
  "repo_findOne (diagramsRepository sample_service) 1 = Some sample_diagram"
  by (simp add: repo_findOne_def sample_service_def sample_diagram_def)

lemma sample_access:
  "hasAccess sample_diagram ana" "hasAccess sample_diagram ben"
  "\<not> hasAccess sample_diagram cleo"
  by (simp_all add: hasAccess_def sample_diagram_def ana_def ben_def cleo_def)

lemma sample_findOne:
  "findOne sample_service 1 ana = Inr sample_diagram"
  "findOne sample_service 1 ben = Inr sample_diagram"
  "findOne sample_service 1 cleo = Inl (ForbiddenException ''Access denied'')"
  by (simp_all add: findOne_visible [OF sample_visible] sample_access)

lemma sample_elements:
  "element_at sample_diagram ''A'' = Some class_A"
  "element_at sample_diagram ''B'' = Some class_B"
  "element_at sample_diagram ''C'' = Some class_C"
  "element_at sample_diagram ''ghost'' = None"
  by (simp_all add: element_at_def sample_diagram_def)


text \<open>
  Each mutation either throws, leaving the service as it was, or saves one diagram. Apart
  from \<open>update\<close>, the diagram saved has the id and the owner of the diagram loaded.
\<close>

lemma update_outcome:
  "(\<exists>e. update s i updateDto usr = throw s e) \<or>
   (\<exists>D. findOne s i usr = Inr D \<and> update s i updateDto usr = save s (assign_patch D updateDto))"
  unfolding update_def by (auto split: sum.splits)

lemma remove_outcome:
  "(\<exists>e. remove s i usr = throw s e) \<or>
   (\<exists>D D'. findOne s i usr = Inr D \<and> remove s i usr = save s D'
      \<and> owner D' = owner D \<and> diagram_id D' = diagram_id D)"
  unfolding remove_def
  by (auto simp: Let_def set_elements_def set_relations_def
           split: sum.splits option.splits json.splits lookup.splits if_splits)

lemma shareDiagram_outcome:
  "(\<exists>e. shareDiagram s i userId usr = throw s e) \<or>
   (\<exists>D D'. findOne s i usr = Inr D \<and> shareDiagram s i userId usr = save s D'
      \<and> owner D' = owner D \<and> diagram_id D' = diagram_id D)"
  unfolding shareDiagram_def
  by (auto simp: Let_def set_elements_def set_relations_def
           split: sum.splits option.splits json.splits lookup.splits if_splits)

lemma updateElement_outcome:
  "(\<exists>e. updateElement s i elementId elementData usr = throw s e) \<or>
   (\<exists>D D'. findOne s i usr = Inr D \<and> updateElement s i elementId elementData usr = save s D'
      \<and> owner D' = owner D \<and> diagram_id D' = diagram_id D)"
  unfolding updateElement_def
  by (auto simp: Let_def set_elements_def set_relations_def
           split: sum.splits option.splits json.splits lookup.splits if_splits)

lemma addAttribute_outcome:
  "(\<exists>e. addAttribute s i classId attribute usr = throw s e) \<or>
   (\<exists>D D'. findOne s i usr = Inr D \<and> addAttribute s i classId attribute usr = save s D'
      \<and> owner D' = owner D \<and> diagram_id D' = diagram_id D)"
  unfolding addAttribute_def
  by (auto simp: Let_def set_elements_def set_relations_def
           split: sum.splits option.splits json.splits lookup.splits if_splits)

lemma updateAttribute_outcome:
  "(\<exists>e. updateAttribute s i classId attrIndex newData usr = throw s e) \<or>
   (\<exists>D D'. findOne s i usr = Inr D \<and> updateAttribute s i classId attrIndex newData usr = save s D'
      \<and> owner D' = owner D \<and> diagram_id D' = diagram_id D)"
  unfolding updateAttribute_def
  by (auto simp: Let_def set_elements_def set_relations_def
           split: sum.splits option.splits json.splits lookup.splits if_splits)

lemma removeAttribute_outcome:
  "(\<exists>e. removeAttribute s i classId attrIndex usr = throw s e) \<or>
   (\<exists>D D'. findOne s i usr = Inr D \<and> removeAttribute s i classId attrIndex usr = save s D'
      \<and> owner D' = owner D \<and> diagram_id D' = diagram_id D)"
  unfolding removeAttribute_def
  by (auto simp: Let_def set_elements_def set_relations_def
           split: sum.splits option.splits json.splits lookup.splits if_splits)

lemma addClass_outcome:
  "(\<exists>e. addClass s i classId classData usr = throw s e) \<or>
   (\<exists>D D'. findOne s i usr = Inr D \<and> addClass s i classId classData usr = save s D'
      \<and> owner D' = owner D \<and> diagram_id D' = diagram_id D)"
  unfolding addClass_def
  by (auto simp: Let_def set_elements_def set_relations_def
           split: sum.splits option.splits json.splits lookup.splits if_splits)

lemma removeClass_outcome:
  "(\<exists>e. removeClass s i classId usr = throw s e) \<or>
   (\<exists>D D'. findOne s i usr = Inr D \<and> removeClass s i classId usr = save s D'
      \<and> owner D' = owner D \<and> diagram_id D' = diagram_id D)"
  unfolding removeClass_def
  by (auto simp: Let_def set_elements_def set_relations_def
           split: sum.splits option.splits json.splits lookup.splits if_splits)

lemma addRelation_outcome:
  "(\<exists>e. addRelation s i relationId relationData usr = throw s e) \<or>
   (\<exists>D D'. findOne s i usr = Inr D \<and> addRelation s i relationId relationData usr = save s D'
      \<and> owner D' = owner D \<and> diagram_id D' = diagram_id D)"
  unfolding addRelation_def
  by (auto simp: Let_def set_elements_def set_relations_def
           split: sum.splits option.splits json.splits lookup.splits if_splits)

lemma updateRelation_outcome:
  "(\<exists>e. updateRelation s i relationId relationData usr = throw s e) \<or>
   (\<exists>D D'. findOne s i usr = Inr D \<and> updateRelation s i relationId relationData usr = save s D'
      \<and> owner D' = owner D \<and> diagram_id D' = diagram_id D)"
  unfolding updateRelation_def
  by (auto simp: Let_def set_elements_def set_relations_def
           split: sum.splits option.splits json.splits lookup.splits if_splits)

lemma removeRelation_outcome:
  "(\<exists>e. removeRelation s i relationId usr = throw s e) \<or>
   (\<exists>D D'. findOne s i usr = Inr D \<and> removeRelation s i relationId usr = save s D'
      \<and> owner D' = owner D \<and> diagram_id D' = diagram_id D)"
  unfolding removeRelation_def
  by (auto simp: Let_def set_elements_def set_relations_def
           split: sum.splits option.splits json.splits lookup.splits if_splits)

lemma moveElement_outcome:
  "(\<exists>e. moveElement s i elementId position usr = throw s e) \<or>
   (\<exists>D D'. findOne s i usr = Inr D \<and> moveElement s i elementId position usr = save s D'
      \<and> owner D' = owner D \<and> diagram_id D' = diagram_id D)"
  unfolding moveElement_def by (rule updateElement_outcome)

lemma perform_outcome_owner:
  assumes "\<forall>i updateDto. m \<noteq> Update i updateDto"
  shows "(\<exists>e. perform s m usr = throw s e) \<or>
   (\<exists>D D'. findOne s (target m) usr = Inr D \<and> perform s m usr = save s D'
      \<and> owner D' = owner D \<and> diagram_id D' = diagram_id D)"
proof (cases m)
  case (Update i updateDto)
  with assms show ?thesis by simp
next
  case (Remove i)
  then show ?thesis using remove_outcome [of s i usr] by simp
next
  case (ShareDiagram i userId)
  then show ?thesis using shareDiagram_outcome [of s i userId usr] by simp
next
  case (UpdateElement i elementId elementData)
  then show ?thesis using updateElement_outcome [of s i elementId elementData usr] by simp
next
  case (MoveElement i elementId position)
  then show ?thesis using moveElement_outcome [of s i elementId position usr] by simp
next
  case (AddAttribute i classId attribute)
  then show ?thesis using addAttribute_outcome [of s i classId attribute usr] by simp
next
  case (UpdateAttribute i classId attrIndex newData)
  then show ?thesis using updateAttribute_outcome [of s i classId attrIndex newData usr] by simp
next
  case (RemoveAttribute i classId attrIndex)
  then show ?thesis using removeAttribute_outcome [of s i classId attrIndex usr] by simp
next
  case (AddClass i classId classData)
  then show ?thesis using addClass_outcome [of s i classId classData usr] by simp
next
  case (RemoveClass i classId)
  then show ?thesis using removeClass_outcome [of s i classId usr] by simp
next
  case (AddRelation i relationId relationData)
  then show ?thesis using addRelation_outcome [of s i relationId relationData usr] by simp
next
  case (UpdateRelation i relationId relationData)
  then show ?thesis using updateRelation_outcome [of s i relationId relationData usr] by simp
next
  case (RemoveRelation i relationId)
  then show ?thesis using removeRelation_outcome [of s i relationId usr] by simp
qed

lemma perform_outcome:
  "(\<exists>e. perform s m usr = throw s e) \<or> (\<exists>D'. perform s m usr = save s D')"
proof (cases "\<forall>i updateDto. m \<noteq> Update i updateDto")
  case True
  from perform_outcome_owner [OF True, of s usr] show ?thesis by blast
next
  case False
  then obtain i updateDto where "m = Update i updateDto" by blast
  then show ?thesis using update_outcome [of s i updateDto usr] by auto
qed

section \<open>Failure leaves storage untouched\<close>

text \<open>
  Claim C9. Every mutation is atomic with respect to the persisted diagrams: when the call
  fails, with whatever error, the service state after the call is the state before it;
  when it succeeds, the state after the call is the state before it with exactly the
  returned diagram saved.
\<close>

theorem mutation_atomic:
  "(\<forall>e. fst (perform s m usr) = Inl e \<longrightarrow> snd (perform s m usr) = s) \<and>
   (\<forall>D'. fst (perform s m usr) = Inr D' \<longrightarrow>
      snd (perform s m usr) = s\<lparr>diagramsRepository := repo_save (diagramsRepository s) D'\<rparr>)"
  using perform_outcome [of s m usr] by (auto simp: throw_def save_def)

theorem mutation_atomic_witness:
  "fst (perform sample_service (AddClass 1 ''A'' [(''name'', JStr ''Again'')]) ben)
     = Inl (Error ''Class already exists'')
   \<and> snd (perform sample_service (AddClass 1 ''A'' [(''name'', JStr ''Again'')]) ben)
     = sample_service"
  using mutation_atomic [of sample_service "AddClass 1 ''A'' [(''name'', JStr ''Again'')]" ben]
  by (simp add: addClass_def sample_findOne Let_def truthy_get_prop element_at_or_empty
        sample_elements throw_def)

section \<open>The owner of a diagram\<close>

text \<open>
  Every mutation other than \<open>update\<close> returns a diagram with the id and the owner of the
  stored diagram it was called on, and leaves every row of the table with the owner that a
  row with its id had before.
\<close>

lemma other_mutations_keep_owner:
  assumes "\<forall>i updateDto. m \<noteq> Update i updateDto"
  shows "(\<forall>D'. fst (perform s m usr) = Inr D' \<longrightarrow>
            (\<exists>D. repo_findOne (diagramsRepository s) (target m) = Some D
                 \<and> diagram_id D' = diagram_id D \<and> owner D' = owner D))
         \<and> (\<forall>r'\<in>set (diagramsRepository (snd (perform s m usr))).
              \<exists>r\<in>set (diagramsRepository s). diagram_id r = diagram_id r' \<and> owner r = owner r')"
  using perform_outcome_owner [OF assms, of s usr]
proof
  assume "\<exists>e. perform s m usr = throw s e"
  then show ?thesis by (auto simp: throw_def)
next
  assume "\<exists>D D'. findOne s (target m) usr = Inr D \<and> perform s m usr = save s D'
            \<and> owner D' = owner D \<and> diagram_id D' = diagram_id D"
  then obtain D D' where f: "findOne s (target m) usr = Inr D"
    and p: "perform s m usr = save s D'"
    and o: "owner D' = owner D" and i: "diagram_id D' = diagram_id D"
    by blast
  from findOne_InrD [OF f]
  have v: "repo_findOne (diagramsRepository s) (target m) = Some D" by simp
  from repo_findOne_SomeD [OF v] have mem: "D \<in> set (diagramsRepository s)" by simp
  have rows: "\<exists>r\<in>set (diagramsRepository s). diagram_id r = diagram_id r' \<and> owner r = owner r'"
    if "r' \<in> set (repo_save (diagramsRepository s) D')" for r'
    using repo_save_rows [OF that] mem o i by auto
  show ?thesis using p v o i rows by (simp add: save_def)
qed

text \<open>
  Claim C6 does not hold of \<open>update\<close>: the owner of a diagram is not immutable. In the
  sample Ana owns diagram 1 and Ben is only one of the users it is shared with; Ben calls
  \<open>update\<close> with a patch that carries an owner field naming himself. The call succeeds,
  the diagram it returns has Ben as its owner, and so has the row that a read of diagram 1
  sees afterwards.
\<close>

theorem update_overwrites_owner:
  "owner sample_diagram = ana
   \<and> user_id ben \<noteq> user_id ana
   \<and> fst (update sample_service 1 owner_patch ben) = Inr (sample_diagram\<lparr>owner := ben\<rparr>)
   \<and> repo_findOne (diagramsRepository (snd (update sample_service 1 owner_patch ben))) 1
       = Some (sample_diagram\<lparr>owner := ben\<rparr>)"
proof -
  have a: "assign_patch sample_diagram owner_patch = sample_diagram\<lparr>owner := ben\<rparr>"
    by (simp add: assign_patch_def owner_patch_def)
  have u: "update sample_service 1 owner_patch ben
             = save sample_service (sample_diagram\<lparr>owner := ben\<rparr>)"
    by (simp add: update_def sample_findOne a)
  have p: "repo_findOne (diagramsRepository (snd (save sample_service (sample_diagram\<lparr>owner := ben\<rparr>)))) 1
             = Some (sample_diagram\<lparr>owner := ben\<rparr>)"
    using repo_findOne_save [of "sample_diagram\<lparr>owner := ben\<rparr>" "diagramsRepository sample_service"]
    by (simp add: save_def sample_diagram_def)
  have o: "owner sample_diagram = ana" by (simp add: sample_diagram_def)
  have n: "user_id ben \<noteq> user_id ana" by (simp add: ana_def ben_def)
  from o n u p show ?thesis by (simp add: save_def)
qed

section \<open>Reading a diagram\<close>

lemma repo_findOne_None_iff:
  "(repo_findOne rows i = None) = (\<forall>d\<in>set rows. diagram_id d = i \<longrightarrow> deleted d)"
  unfolding repo_findOne_def by (auto simp: find_None_iff)

lemma repo_findOne_unique:
  "D \<in> set rows \<Longrightarrow> \<not> deleted D \<Longrightarrow> \<forall>d\<in>set rows. diagram_id d = diagram_id D \<longrightarrow> d = D
     \<Longrightarrow> repo_findOne rows (diagram_id D) = Some D"
proof -
  assume a: "D \<in> set rows" "\<not> deleted D" "\<forall>d\<in>set rows. diagram_id d = diagram_id D \<longrightarrow> d = D"
  then have "repo_findOne rows (diagram_id D) \<noteq> None"
    by (auto simp: repo_findOne_None_iff)
  then obtain d where d: "repo_findOne rows (diagram_id D) = Some d" by blast
  from repo_findOne_SomeD [OF d] a(3) have "d = D" by blast
  with d show ?thesis by simp
qed

text \<open>
  Claim C1. For a stored diagram \<open>D\<close> (the row that a read by its id sees) and a caller
  \<open>U\<close>, \<open>findOne\<close> returns \<open>D\<close> exactly when \<open>U\<close> is the owner of \<open>D\<close> or one of the
  users \<open>D\<close> is shared with, users being compared by id; otherwise it fails with
  Forbidden. When the table holds no row with the id that is not soft-deleted, it fails
  with NotFound. A row that is not soft-deleted and is the only one with its id is a
  stored diagram in this sense.
\<close>

theorem findOne_access:
  "(repo_findOne (diagramsRepository s) i = Some D \<longrightarrow>
      ((findOne s i U = Inr D) =
         (user_id (owner D) = user_id U \<or> (\<exists>u\<in>set (sharedWith D). user_id u = user_id U)))
      \<and> (\<not> (user_id (owner D) = user_id U \<or> (\<exists>u\<in>set (sharedWith D). user_id u = user_id U))
           \<longrightarrow> findOne s i U = Inl (ForbiddenException ''Access denied'')))
   \<and> ((\<forall>d\<in>set (diagramsRepository s). diagram_id d = i \<longrightarrow> deleted d)
        \<longrightarrow> findOne s i U = Inl (NotFoundException ''Diagram not found''))
   \<and> (D \<in> set (diagramsRepository s) \<and> \<not> deleted D
        \<and> (\<forall>d\<in>set (diagramsRepository s). diagram_id d = diagram_id D \<longrightarrow> d = D)
        \<longrightarrow> repo_findOne (diagramsRepository s) (diagram_id D) = Some D)"
proof -
  have a: "repo_findOne (diagramsRepository s) i = Some D \<longrightarrow>
      ((findOne s i U = Inr D) =
         (user_id (owner D) = user_id U \<or> (\<exists>u\<in>set (sharedWith D). user_id u = user_id U)))
      \<and> (\<not> (user_id (owner D) = user_id U \<or> (\<exists>u\<in>set (sharedWith D). user_id u = user_id U))
           \<longrightarrow> findOne s i U = Inl (ForbiddenException ''Access denied''))"
    by (simp add: findOne_def hasAccess_def list_ex_iff)
  have b: "(\<forall>d\<in>set (diagramsRepository s). diagram_id d = i \<longrightarrow> deleted d)
        \<longrightarrow> findOne s i U = Inl (NotFoundException ''Diagram not found'')"
  proof
    assume "\<forall>d\<in>set (diagramsRepository s). diagram_id d = i \<longrightarrow> deleted d"
    then have "repo_findOne (diagramsRepository s) i = None"
      by (simp only: repo_findOne_None_iff)
    then show "findOne s i U = Inl (NotFoundException ''Diagram not found'')"
      by (simp add: findOne_def)
  qed
  have c: "D \<in> set (diagramsRepository s) \<and> \<not> deleted D
        \<and> (\<forall>d\<in>set (diagramsRepository s). diagram_id d = diagram_id D \<longrightarrow> d = D)
        \<longrightarrow> repo_findOne (diagramsRepository s) (diagram_id D) = Some D"
    using repo_findOne_unique [of D "diagramsRepository s"] by blast
  from a b c show ?thesis by blast
qed

theorem findOne_access_witness:
  "findOne sample_service 1 ben = Inr sample_diagram
   \<and> findOne sample_service 1 cleo = Inl (ForbiddenException ''Access denied'')
   \<and> findOne sample_service 2 ana = Inl (NotFoundException ''Diagram not found'')"
proof -
  have v: "repo_findOne (diagramsRepository sample_service) 1 = Some sample_diagram"
    by (rule sample_visible)
  have b: "user_id (owner sample_diagram) = user_id ben
           \<or> (\<exists>u\<in>set (sharedWith sample_diagram). user_id u = user_id ben)"
    by (simp add: sample_diagram_def ben_def)
  have c: "\<not> (user_id (owner sample_diagram) = user_id cleo
           \<or> (\<exists>u\<in>set (sharedWith sample_diagram). user_id u = user_id cleo))"
    by (simp add: sample_diagram_def ana_def ben_def cleo_def)
  have n: "\<forall>d\<in>set (diagramsRepository sample_service). diagram_id d = 2 \<longrightarrow> deleted d"
    by (simp add: sample_service_def sample_diagram_def)
  show ?thesis
    using v b c n
      findOne_access [of sample_service 1 sample_diagram ben]
      findOne_access [of sample_service 1 sample_diagram cleo]
      findOne_access [of sample_service 2 sample_diagram ana]
    by blast
qed

section \<open>Sharing is for the owner\<close>

lemma repo_findOneBy_None_iff:
  "(repo_findOneBy rows i = None) = (\<forall>u\<in>set rows. user_id u \<noteq> i)"
  unfolding repo_findOneBy_def by (auto simp: find_None_iff)

text \<open>
  Claim C3. On a stored diagram \<open>D\<close>, \<open>shareDiagram\<close> called by anyone but the owner
  fails with Forbidden and leaves the service unchanged, also when the caller is one of
  the users \<open>D\<close> is shared with; called by the owner for a target id that no user has,
  it fails with NotFound.
\<close>

theorem shareDiagram_owner_only:
  "repo_findOne (diagramsRepository s) i = Some D \<longrightarrow>
     (user_id U \<noteq> user_id (owner D) \<longrightarrow>
        (\<exists>msg. shareDiagram s i targetUserId U = (Inl (ForbiddenException msg), s)))
     \<and> (user_id U \<noteq> user_id (owner D) \<and> (\<exists>u\<in>set (sharedWith D). user_id u = user_id U) \<longrightarrow>
          shareDiagram s i targetUserId U
            = (Inl (ForbiddenException ''Only the owner can share the diagram''), s))
     \<and> (user_id U = user_id (owner D)
          \<and> (\<forall>u\<in>set (usersRepository s). user_id u \<noteq> targetUserId) \<longrightarrow>
          shareDiagram s i targetUserId U
            = (Inl (NotFoundException ''User to share not found''), s))"
proof
  assume v: "repo_findOne (diagramsRepository s) i = Some D"
  have a: "user_id U \<noteq> user_id (owner D) \<longrightarrow>
        (\<exists>msg. shareDiagram s i targetUserId U = (Inl (ForbiddenException msg), s))"
    using v by (auto simp: shareDiagram_def findOne_def throw_def)
  have b: "user_id U \<noteq> user_id (owner D) \<and> (\<exists>u\<in>set (sharedWith D). user_id u = user_id U) \<longrightarrow>
          shareDiagram s i targetUserId U
            = (Inl (ForbiddenException ''Only the owner can share the diagram''), s)"
    using v by (auto simp: shareDiagram_def findOne_def hasAccess_def list_ex_iff throw_def)
  have c: "user_id U = user_id (owner D)
          \<and> (\<forall>u\<in>set (usersRepository s). user_id u \<noteq> targetUserId) \<longrightarrow>
          shareDiagram s i targetUserId U
            = (Inl (NotFoundException ''User to share not found''), s)"
  proof
    assume h: "user_id U = user_id (owner D)
          \<and> (\<forall>u\<in>set (usersRepository s). user_id u \<noteq> targetUserId)"
    then have n: "repo_findOneBy (usersRepository s) targetUserId = None"
      by (simp add: repo_findOneBy_None_iff)
    from h v n show "shareDiagram s i targetUserId U
            = (Inl (NotFoundException ''User to share not found''), s)"
      by (simp add: shareDiagram_def findOne_def hasAccess_def throw_def)
  qed
  from a b c show "(user_id U \<noteq> user_id (owner D) \<longrightarrow>
        (\<exists>msg. shareDiagram s i targetUserId U = (Inl (ForbiddenException msg), s)))
     \<and> (user_id U \<noteq> user_id (owner D) \<and> (\<exists>u\<in>set (sharedWith D). user_id u = user_id U) \<longrightarrow>
          shareDiagram s i targetUserId U
            = (Inl (ForbiddenException ''Only the owner can share the diagram''), s))
     \<and> (user_id U = user_id (owner D)
          \<and> (\<forall>u\<in>set (usersRepository s). user_id u \<noteq> targetUserId) \<longrightarrow>
          shareDiagram s i targetUserId U
            = (Inl (NotFoundException ''User to share not found''), s))"
    by blast
qed

theorem shareDiagram_owner_only_witness:
  "shareDiagram sample_service 1 3 ben
     = (Inl (ForbiddenException ''Only the owner can share the diagram''), sample_service)
   \<and> (\<exists>msg. shareDiagram sample_service 1 2 cleo = (Inl (ForbiddenException msg), sample_service))
   \<and> shareDiagram sample_service 1 9 ana
     = (Inl (NotFoundException ''User to share not found''), sample_service)"
proof -
  have v: "repo_findOne (diagramsRepository sample_service) 1 = Some sample_diagram"
    by (rule sample_visible)
  have b: "user_id ben \<noteq> user_id (owner sample_diagram)
           \<and> (\<exists>u\<in>set (sharedWith sample_diagram). user_id u = user_id ben)"
    by (simp add: sample_diagram_def ana_def ben_def)
  have c: "user_id cleo \<noteq> user_id (owner sample_diagram)"
    by (simp add: sample_diagram_def ana_def cleo_def)
  have a: "user_id ana = user_id (owner sample_diagram)
           \<and> (\<forall>u\<in>set (usersRepository sample_service). user_id u \<noteq> 9)"
    by (simp add: sample_service_def sample_diagram_def ana_def ben_def cleo_def)
  show ?thesis
    using v a b c
      shareDiagram_owner_only [of sample_service 1 sample_diagram ben 3]
      shareDiagram_owner_only [of sample_service 1 sample_diagram cleo 2]
      shareDiagram_owner_only [of sample_service 1 sample_diagram ana 9]
    by blast
qed

section \<open>Updating and moving an element\<close>

lemma set_elements_simps:
  "element_at (set_elements d els) k = map_of els k"
  "relation_at (set_elements d els) k = relation_at d k"
  "relations (content (set_elements d els)) = relations (content d)"
  "elements (content (set_elements d els)) = Some els"
  "diagram_id (set_elements d els) = diagram_id d"
  "owner (set_elements d els) = owner d"
  "sharedWith (set_elements d els) = sharedWith d"
  "meta (set_elements d els) = meta d"
  "deleted (set_elements d els) = deleted d"
  by (simp_all add: set_elements_def element_at_def relation_at_def)


lemma findOne_granted:
  "repo_findOne (diagramsRepository s) i = Some D \<Longrightarrow> hasAccess D usr \<Longrightarrow> findOne s i usr = Inr D"
  by (simp add: findOne_visible)

lemma saved_visible:
  "repo_findOne (diagramsRepository s) i = Some D \<Longrightarrow> diagram_id D' = diagram_id D \<Longrightarrow>
   deleted D' = deleted D \<Longrightarrow>
   repo_findOne (diagramsRepository (snd (save s D'))) i = Some D'"
  using repo_findOne_SomeD [of "diagramsRepository s" i D]
        repo_findOne_save [of D' "diagramsRepository s"]
  by (simp add: save_def)

lemma updateElement_granted:
  assumes "findOne s i usr = Inr D"
  shows "updateElement s i elementId elementData usr =
           save s (set_elements D
                     (set_prop elementId
                        (spread (case element_at D elementId of None \<Rightarrow> [] | Some el \<Rightarrow> el)
                           (own_props elementData))
                        (or_empty (elements (content D)))))"
  using assms
  by (simp add: updateElement_def Let_def props_of_get_prop element_at_or_empty)

lemma element_at_set_prop:
  "element_at (set_elements D (set_prop k v (or_empty (elements (content D))))) k' =
     (if k' = k \<and> \<not> (k = ''__proto__'' \<and> element_at D k = None) then Some v
      else element_at D k')"
  by (auto simp: set_elements_simps map_of_set_prop element_at_or_empty)







text \<open>
  Claim C7. \<open>moveElement\<close> with coordinates \<open>p = (x, y)\<close> returns the result and
  the service state of \<open>updateElement\<close> with the one field \<^verbatim>\<open>{position: {x, y}}\<close>, for
  every diagram, element id, coordinates and caller. On a stored diagram and for a caller
  with access, the record saved at the element id has the new position and every other
  field as before, and nothing else of the diagram changes; at \<^verbatim>\<open>__proto__\<close> without a
  record of its own nothing at all changes.
\<close>

theorem moveElement_is_updateElement:
  "moveElement s i elementId p usr
     = updateElement s i elementId (JObj [(''position'', position_json p)]) usr
   \<and> (repo_findOne (diagramsRepository s) i = Some D \<and> hasAccess D usr \<longrightarrow>
        (\<exists>D'. moveElement s i elementId p usr = save s D'
           \<and> (\<forall>k. k \<noteq> elementId \<longrightarrow> element_at D' k = element_at D k)
           \<and> relations (content D') = relations (content D)
           \<and> diagram_id D' = diagram_id D \<and> owner D' = owner D
           \<and> sharedWith D' = sharedWith D \<and> meta D' = meta D \<and> deleted D' = deleted D
           \<and> (elementId = ''__proto__'' \<and> element_at D elementId = None \<longrightarrow>
                 element_at D' elementId = None)
           \<and> (\<not> (elementId = ''__proto__'' \<and> element_at D elementId = None) \<longrightarrow>
                 (\<exists>el'. element_at D' elementId = Some el'
                    \<and> map_of el' ''position'' = Some (position_json p)
                    \<and> (\<forall>f. f \<noteq> ''position'' \<longrightarrow>
                          map_of el' f = (case element_at D elementId of
                                            None \<Rightarrow> None
                                          | Some el \<Rightarrow> map_of el f))))))"
proof
  show "moveElement s i elementId p usr
     = updateElement s i elementId (JObj [(''position'', position_json p)]) usr"
    by (simp add: moveElement_def)
next
  show "repo_findOne (diagramsRepository s) i = Some D \<and> hasAccess D usr \<longrightarrow>
        (\<exists>D'. moveElement s i elementId p usr = save s D'
           \<and> (\<forall>k. k \<noteq> elementId \<longrightarrow> element_at D' k = element_at D k)
           \<and> relations (content D') = relations (content D)
           \<and> diagram_id D' = diagram_id D \<and> owner D' = owner D
           \<and> sharedWith D' = sharedWith D \<and> meta D' = meta D \<and> deleted D' = deleted D
           \<and> (elementId = ''__proto__'' \<and> element_at D elementId = None \<longrightarrow>
                 element_at D' elementId = None)
           \<and> (\<not> (elementId = ''__proto__'' \<and> element_at D elementId = None) \<longrightarrow>
                 (\<exists>el'. element_at D' elementId = Some el'
                    \<and> map_of el' ''position'' = Some (position_json p)
                    \<and> (\<forall>f. f \<noteq> ''position'' \<longrightarrow>
                          map_of el' f = (case element_at D elementId of
                                            None \<Rightarrow> None
                                          | Some el \<Rightarrow> map_of el f)))))"
  proof
    assume h: "repo_findOne (diagramsRepository s) i = Some D \<and> hasAccess D usr"
    then have f: "findOne s i usr = Inr D" by (simp add: findOne_granted)
    let ?el = "spread (case element_at D elementId of None \<Rightarrow> [] | Some el \<Rightarrow> el)
                 [(''position'', position_json p)]"
    let ?D' = "set_elements D (set_prop elementId ?el (or_empty (elements (content D))))"
    have r: "moveElement s i elementId p usr = save s ?D'"
      using updateElement_granted [OF f, of elementId "JObj [(''position'', position_json p)]"]
      by (simp add: moveElement_def)
    have o: "\<forall>k. k \<noteq> elementId \<longrightarrow> element_at ?D' k = element_at D k"
      by (simp add: element_at_set_prop)
    have rl: "relations (content ?D') = relations (content D)"
      and s1: "diagram_id ?D' = diagram_id D" and s2: "owner ?D' = owner D"
      and s3: "sharedWith ?D' = sharedWith D" and s4: "meta ?D' = meta D"
      and s5: "deleted ?D' = deleted D"
      by (simp_all add: set_elements_simps)
    have pr: "elementId = ''__proto__'' \<and> element_at D elementId = None \<longrightarrow>
                 element_at ?D' elementId = None"
      by (simp add: element_at_set_prop)
    have w: "\<not> (elementId = ''__proto__'' \<and> element_at D elementId = None) \<longrightarrow>
                 (\<exists>el'. element_at ?D' elementId = Some el'
                    \<and> map_of el' ''position'' = Some (position_json p)
                    \<and> (\<forall>f. f \<noteq> ''position'' \<longrightarrow>
                          map_of el' f = (case element_at D elementId of
                                            None \<Rightarrow> None
                                          | Some el \<Rightarrow> map_of el f)))"
    proof
      assume n: "\<not> (elementId = ''__proto__'' \<and> element_at D elementId = None)"
      then have e: "element_at ?D' elementId = Some ?el"
        by (simp add: element_at_set_prop)
      have pos: "map_of ?el ''position'' = Some (position_json p)"
        by (simp add: map_of_spread)
      have rest: "\<forall>f. f \<noteq> ''position'' \<longrightarrow>
                   map_of ?el f = (case element_at D elementId of
                                     None \<Rightarrow> None
                                   | Some el \<Rightarrow> map_of el f)"
        by (simp add: map_of_spread map_add_def split: option.splits)
      show "\<exists>el'. element_at ?D' elementId = Some el'
                    \<and> map_of el' ''position'' = Some (position_json p)
                    \<and> (\<forall>f. f \<noteq> ''position'' \<longrightarrow>
                          map_of el' f = (case element_at D elementId of
                                            None \<Rightarrow> None
                                          | Some el \<Rightarrow> map_of el f))"
        by (intro exI [of _ ?el] conjI) (rule e pos rest)+
    qed
    show "\<exists>D'. moveElement s i elementId p usr = save s D'
           \<and> (\<forall>k. k \<noteq> elementId \<longrightarrow> element_at D' k = element_at D k)
           \<and> relations (content D') = relations (content D)
           \<and> diagram_id D' = diagram_id D \<and> owner D' = owner D
           \<and> sharedWith D' = sharedWith D \<and> meta D' = meta D \<and> deleted D' = deleted D
           \<and> (elementId = ''__proto__'' \<and> element_at D elementId = None \<longrightarrow>
                 element_at D' elementId = None)
           \<and> (\<not> (elementId = ''__proto__'' \<and> element_at D elementId = None) \<longrightarrow>
                 (\<exists>el'. element_at D' elementId = Some el'
                    \<and> map_of el' ''position'' = Some (position_json p)
                    \<and> (\<forall>f. f \<noteq> ''position'' \<longrightarrow>
                          map_of el' f = (case element_at D elementId of
                                            None \<Rightarrow> None
                                          | Some el \<Rightarrow> map_of el f))))"
      by (intro exI [of _ ?D'] conjI) (rule r o rl s1 s2 s3 s4 s5 pr w)+
  qed
qed

theorem moveElement_is_updateElement_witness:
  "\<exists>D' el'. moveElement sample_service 1 ''B'' (5, 5) ben = save sample_service D'
      \<and> moveElement sample_service 1 ''B'' (5, 5) ben
          = updateElement sample_service 1 ''B'' (JObj [(''position'', position_json (5, 5))]) ben
      \<and> element_at D' ''B'' = Some el'
      \<and> map_of el' ''position'' = Some (JObj [(''x'', JNum 5), (''y'', JNum 5)])
      \<and> map_of el' ''name'' = Some (JStr ''Wheel'')
      \<and> map_of el' ''attributes'' = Some (JArr [])
      \<and> element_at D' ''A'' = Some class_A"
proof -
  have h: "repo_findOne (diagramsRepository sample_service) 1 = Some sample_diagram
           \<and> hasAccess sample_diagram ben"
    by (simp add: sample_visible sample_access)
  have w: "\<not> (''B'' = ''__proto__'' \<and> element_at sample_diagram ''B'' = None)"
    by simp
  note t = moveElement_is_updateElement [of sample_service 1 "''B''" "(5, 5)" ben sample_diagram]
  note q = t [THEN conjunct1]
  from t [THEN conjunct2, THEN mp, OF h] obtain D' where
    a: "moveElement sample_service 1 ''B'' (5, 5) ben = save sample_service D'"
    and e: "\<forall>k. k \<noteq> ''B'' \<longrightarrow> element_at D' k = element_at sample_diagram k"
    and x: "\<not> (''B'' = ''__proto__'' \<and> element_at sample_diagram ''B'' = None) \<longrightarrow>
                 (\<exists>el'. element_at D' ''B'' = Some el'
                    \<and> map_of el' ''position'' = Some (position_json (5, 5))
                    \<and> (\<forall>f. f \<noteq> ''position'' \<longrightarrow>
                          map_of el' f = (case element_at sample_diagram ''B'' of
                                            None \<Rightarrow> None
                                          | Some el \<Rightarrow> map_of el f)))"
    by (elim exE conjE) (rule that)
  from x [THEN mp, OF w] obtain el' where
    b: "element_at D' ''B'' = Some el'"
    and c: "map_of el' ''position'' = Some (position_json (5, 5))"
    and d: "\<forall>f. f \<noteq> ''position'' \<longrightarrow>
                 map_of el' f = (case element_at sample_diagram ''B'' of
                                   None \<Rightarrow> None
                                 | Some el \<Rightarrow> map_of el f)"
    by (elim exE conjE) (rule that)
  from c have c': "map_of el' ''position'' = Some (JObj [(''x'', JNum 5), (''y'', JNum 5)])"
    by (simp add: position_json_def)
  from d have d1: "map_of el' ''name'' = Some (JStr ''Wheel'')"
    by (simp add: sample_elements class_B_def)
  from d have d2: "map_of el' ''attributes'' = Some (JArr [])"
    by (simp add: sample_elements class_B_def)
  from e have e': "element_at D' ''A'' = Some class_A"
    by (simp add: sample_elements)
  show ?thesis
    by (intro exI [of _ D'] exI [of _ el'] conjI) (rule a q b c' d1 d2 e')+
qed

text \<open>
  Claim C10. The document can come to hold an element record without the name and the
  attributes of the documented element shape: on a stored diagram, for a caller with
  access and an element id that the elements map does not hold, \<open>moveElement\<close> saves
  a diagram whose record at that id consists of the position alone (at the one id
  \<^verbatim>\<open>__proto__\<close> it saves no record).
\<close>

theorem moveElement_creates_bare_element:
  "repo_findOne (diagramsRepository s) i = Some D \<and> hasAccess D usr
     \<and> element_at D elementId = None \<longrightarrow>
   (\<exists>D'. moveElement s i elementId p usr = save s D'
      \<and> repo_findOne (diagramsRepository (snd (moveElement s i elementId p usr))) i = Some D'
      \<and> element_at D' elementId
          = (if elementId = ''__proto__'' then None else Some [(''position'', position_json p)])
      \<and> (\<forall>el'. element_at D' elementId = Some el' \<longrightarrow>
             map_of el' ''name'' = None \<and> map_of el' ''attributes'' = None))"
proof
  assume h: "repo_findOne (diagramsRepository s) i = Some D \<and> hasAccess D usr
     \<and> element_at D elementId = None"
  then have f: "findOne s i usr = Inr D" by (simp add: findOne_granted)
  let ?D' = "set_elements D (set_prop elementId [(''position'', position_json p)]
                               (or_empty (elements (content D))))"
  have r: "moveElement s i elementId p usr = save s ?D'"
    using updateElement_granted [OF f, of elementId "JObj [(''position'', position_json p)]"] h
    by (simp add: moveElement_def spread_def)
  have v: "repo_findOne (diagramsRepository (snd (moveElement s i elementId p usr))) i = Some ?D'"
    unfolding r using h by (intro saved_visible [of s i D]) (simp_all add: set_elements_simps)
  have e: "element_at ?D' elementId
             = (if elementId = ''__proto__'' then None else Some [(''position'', position_json p)])"
    using h by (auto simp: element_at_set_prop)
  have b: "\<forall>el'. element_at ?D' elementId = Some el' \<longrightarrow>
             map_of el' ''name'' = None \<and> map_of el' ''attributes'' = None"
    by (auto simp: e split: if_splits)
  show "\<exists>D'. moveElement s i elementId p usr = save s D'
      \<and> repo_findOne (diagramsRepository (snd (moveElement s i elementId p usr))) i = Some D'
      \<and> element_at D' elementId
          = (if elementId = ''__proto__'' then None else Some [(''position'', position_json p)])
      \<and> (\<forall>el'. element_at D' elementId = Some el' \<longrightarrow>
             map_of el' ''name'' = None \<and> map_of el' ''attributes'' = None)"
    by (intro exI [of _ ?D'] conjI) (rule r v e b)+
qed

theorem moveElement_creates_bare_element_witness:
  "\<exists>D'. moveElement sample_service 1 ''ghost'' (5, 5) ben = save sample_service D'
      \<and> repo_findOne (diagramsRepository (snd (moveElement sample_service 1 ''ghost'' (5, 5) ben))) 1
          = Some D'
      \<and> element_at D' ''ghost'' = Some [(''position'', JObj [(''x'', JNum 5), (''y'', JNum 5)])]"
proof -
  have h: "repo_findOne (diagramsRepository sample_service) 1 = Some sample_diagram
           \<and> hasAccess sample_diagram ben \<and> element_at sample_diagram ''ghost'' = None"
    by (simp add: sample_visible sample_access sample_elements)
  from moveElement_creates_bare_element [of sample_service 1 sample_diagram ben "''ghost''" "(5, 5)",
         THEN mp, OF h]
  obtain D' where
    a: "moveElement sample_service 1 ''ghost'' (5, 5) ben = save sample_service D'"
    and b: "repo_findOne (diagramsRepository (snd (moveElement sample_service 1 ''ghost'' (5, 5) ben))) 1
          = Some D'"
    and c: "element_at D' ''ghost''
              = (if ''ghost'' = ''__proto__'' then None
                 else Some [(''position'', position_json (5, 5))])"
    by (elim exE conjE) (rule that)
  from c have "element_at D' ''ghost'' = Some [(''position'', JObj [(''x'', JNum 5), (''y'', JNum 5)])]"
    by (simp add: position_json_def)
  with a b show ?thesis by blast
qed

section \<open>Adding a class\<close>






section \<open>Removing a class\<close>












section \<open>Removing an attribute\<close>









end
